theory Spec2Isabelle
  imports Main
begin

section \<open>JavaScript values read from the change-feed\<close>

text \<open>
  A snapshot's value is a JavaScript object whose properties are leaf values of the
  realtime database: strings, numbers, booleans. A property that is not stored reads as
  \<open>undefined\<close>; \<open>null\<close> can come from a parsed request body. Numbers are modelled as
  integers (the records carry epoch milliseconds, and \<open>Date.now()\<close> is an integer), on
  which the subtraction is exact; the only other numeric result the handler can meet is
  \<open>NaN\<close>.
\<close>

datatype jsval = JUndefined | JNull | JBool bool | JNum int | JStr string

datatype jsnum = Finite int | NaN

type_synonym jsobj = "string \<rightharpoonup> jsval"

text \<open>property read \<open>obj.name\<close>\<close>

definition property :: "jsobj \<Rightarrow> string \<Rightarrow> jsval" where
  "property obj name = (case obj name of None \<Rightarrow> JUndefined | Some v \<Rightarrow> v)"

text \<open>ToBoolean, as applied by \<open>if (v)\<close>, \<open>!v\<close> and \<open>v || d\<close>\<close>

fun truthy :: "jsval \<Rightarrow> bool" where
  "truthy JUndefined = False"
| "truthy JNull = False"
| "truthy (JBool b) = b"
| "truthy (JNum n) = (n \<noteq> 0)"
| "truthy (JStr s) = (s \<noteq> [])"

text \<open>\<open>a || b\<close>\<close>

definition js_or :: "jsval \<Rightarrow> jsval \<Rightarrow> jsval" where
  "js_or a b = (if truthy a then a else b)"

text \<open>
  The numeric coercion applied by the binary minus. Its first argument is the runtime's
  conversion of a string to a number, which is not part of the program.
\<close>

fun ToNumber :: "(string \<Rightarrow> jsnum) \<Rightarrow> jsval \<Rightarrow> jsnum" where
  "ToNumber s2n JUndefined = NaN"
| "ToNumber s2n JNull = Finite 0"
| "ToNumber s2n (JBool b) = Finite (if b then 1 else 0)"
| "ToNumber s2n (JNum n) = Finite n"
| "ToNumber s2n (JStr s) = s2n s"

fun js_minus :: "jsnum \<Rightarrow> jsnum \<Rightarrow> jsnum" where
  "js_minus (Finite a) (Finite b) = Finite (a - b)"
| "js_minus _ _ = NaN"

text \<open>\<open>a > b\<close>: every comparison with \<open>NaN\<close> is false\<close>

fun js_gt :: "jsnum \<Rightarrow> jsnum \<Rightarrow> bool" where
  "js_gt (Finite a) (Finite b) = (a > b)"
| "js_gt _ _ = False"

section \<open>External collaborators\<close>

text \<open>
  A promise that is awaited either resolves with a value or rejects with an error, which
  the \<open>await\<close> throws.
\<close>

record js_error =
  code :: jsval
  message :: string

datatype 'a outcome = Resolved 'a | Rejected js_error

record user_doc =
  exists :: bool
  userData :: jsobj

record message_data =
  title :: jsval
  body :: jsval
  url :: jsval
  type :: jsval
  icon :: jsval

record fcm_message =
  token :: jsval
  notification :: "jsobj option"
  data :: message_data
  webpush_fcm_options_link :: jsval

text \<open>
  What the process cannot decide: the clock, the string-to-number conversion of the
  runtime, and the answers of the profile store, the push gateway and the change-feed's
  write acknowledgement.
\<close>

record env =
  date_now :: int
  string_to_number :: "string \<Rightarrow> jsnum"
  firestore_get :: "string \<Rightarrow> user_doc outcome"
  messaging_send :: "fcm_message \<Rightarrow> string outcome"
  child_update :: "string \<Rightarrow> string \<Rightarrow> unit outcome"

section \<open>The staleness and dedup guards\<close>

datatype decision = Skip | Proceed

text \<open>\<open>Date.now() - notification.timestamp > 5 * 60 * 1000\<close>\<close>

definition too_old :: "env \<Rightarrow> jsobj \<Rightarrow> bool" where
  "too_old e n =
     js_gt (js_minus (Finite (date_now e)) (ToNumber (string_to_number e) (property n ''timestamp'')))
           (Finite (5 * 60 * 1000))"

text \<open>the two early returns at the head of the per-record handler, in their order\<close>

definition decide :: "env \<Rightarrow> jsobj \<Rightarrow> decision" where
  "decide e n =
     (if truthy (property n ''processed'') then Skip
      else if too_old e n then Skip
      else Proceed)"

section \<open>The process state and its effects\<close>

text \<open>
  Everything the handlers do to the outside is recorded, in order: console lines, the
  profile fetch, the gateway call, the partial update of a record and the attachment of a
  per-user subscription.
\<close>

datatype log_line =
    Attaching string
  | Processing string jsobj
  | Fetching string
  | UserFound string bool
  | SendingTo string
  | SentOk string
  | Marked string
  | NoToken string
  | NoDoc string
  | ErrSending js_error
  | ErrFetching js_error

datatype effect =
    ConsoleLog log_line
  | ConsoleError log_line
  | FirestoreGet string
  | MessagingSend fcm_message
  | RtdbUpdate string string "(string \<times> jsval) list"
  | Subscribe string

record world =
  rtdb :: "string \<times> string \<rightharpoonup> jsobj"
  activeListeners :: "string set"
  effects :: "effect list"

definition emit :: "effect \<Rightarrow> world \<Rightarrow> world" where
  "emit x w = w\<lparr>effects := effects w @ [x]\<rparr>"

text \<open>
  The change-feed's partial update at \<open>notifications/userId/notifId\<close>: the listed
  children are written, every other child of the record and every other record stays.
\<close>

definition update_children :: "jsobj \<Rightarrow> (string \<times> jsval) list \<Rightarrow> jsobj" where
  "update_children obj kvs = fold (\<lambda>(k, v) m. m(k \<mapsto> v)) kvs obj"

definition apply_update :: "string \<Rightarrow> string \<Rightarrow> (string \<times> jsval) list \<Rightarrow> world \<Rightarrow> world" where
  "apply_update userId notifId kvs w =
     w\<lparr>rtdb := (rtdb w)((userId, notifId) \<mapsto>
           update_children (case rtdb w (userId, notifId) of None \<Rightarrow> Map.empty | Some r \<Rightarrow> r) kvs)\<rparr>"

section \<open>The per-record handler\<close>

text \<open>The message literal built for the gateway.\<close>

definition build_message :: "jsval \<Rightarrow> jsobj \<Rightarrow> fcm_message" where
  "build_message fcmToken n =
     \<lparr>token = fcmToken,
      notification = None,
      data = \<lparr>title = property n ''title'',
              body = property n ''body'',
              url = js_or (property n ''link'') (JStr ''/''),
              type = js_or (property n ''type'') (JStr ''info''),
              icon = JStr ''https://educationfyp.vercel.app/report.png''\<rparr>,
      webpush_fcm_options_link = js_or (property n ''link'') (JStr ''/'')\<rparr>"

text \<open>
  A block of statements either completes or throws; in both cases the effects it had so
  far stay. \<open>None\<close> is normal completion, \<open>Some e\<close> the error thrown.
\<close>

type_synonym completion = "js_error option \<times> world"

text \<open>The body of the inner \<open>try\<close>: send, then mark.\<close>

definition send_and_mark :: "env \<Rightarrow> string \<Rightarrow> string \<Rightarrow> fcm_message \<Rightarrow> world \<Rightarrow> completion" where
  "send_and_mark e userId notifId msg w =
     (let w1 = emit (MessagingSend msg) (emit (ConsoleLog (SendingTo userId)) w)
      in case messaging_send e msg of
           Rejected err \<Rightarrow> (Some err, w1)
         | Resolved response \<Rightarrow>
             (let w2 = emit (RtdbUpdate userId notifId [(''processed'', JBool True)])
                         (emit (ConsoleLog (SentOk response)) w1)
              in case child_update e userId notifId of
                   Rejected err \<Rightarrow> (Some err, w2)
                 | Resolved _ \<Rightarrow>
                     (None, emit (ConsoleLog (Marked notifId))
                              (apply_update userId notifId [(''processed'', JBool True)] w2))))"

text \<open>The inner \<open>try\<close> with its \<open>catch\<close>, which logs and swallows.\<close>

definition try_send :: "env \<Rightarrow> string \<Rightarrow> string \<Rightarrow> fcm_message \<Rightarrow> world \<Rightarrow> completion" where
  "try_send e userId notifId msg w =
     (case send_and_mark e userId notifId msg w of
        (Some err, w') \<Rightarrow> (None, emit (ConsoleError (ErrSending err)) w')
      | (None, w') \<Rightarrow> (None, w'))"

text \<open>The body of the outer \<open>try\<close>: fetch the profile, then dispatch if it has a token.\<close>

definition fetch_and_dispatch :: "env \<Rightarrow> string \<Rightarrow> string \<Rightarrow> jsobj \<Rightarrow> world \<Rightarrow> completion" where
  "fetch_and_dispatch e userId notifId n w =
     (let w1 = emit (FirestoreGet userId) (emit (ConsoleLog (Fetching userId)) w)
      in case firestore_get e userId of
           Rejected err \<Rightarrow> (Some err, w1)
         | Resolved userDoc \<Rightarrow>
             if exists userDoc then
               (let fcmToken = property (userData userDoc) ''fcmToken'';
                    w2 = emit (ConsoleLog (UserFound userId (truthy fcmToken))) w1
                in if truthy fcmToken
                   then try_send e userId notifId (build_message fcmToken n) w2
                   else (None, emit (ConsoleLog (NoToken userId)) w2))
             else (None, emit (ConsoleLog (NoDoc userId)) w1))"

text \<open>
  The handler of \<open>child_added\<close> under one user's sub-tree, called with the snapshot's key
  and value. One call is one step of the model: what other handlers do while this one
  awaits is not interleaved with it.
\<close>

definition on_notification_added :: "env \<Rightarrow> string \<Rightarrow> string \<Rightarrow> jsobj \<Rightarrow> world \<Rightarrow> completion" where
  "on_notification_added e userId notifId n w =
     (if truthy (property n ''processed'') then (None, w)
      else if too_old e n then (None, w)
      else
        (let w1 = emit (ConsoleLog (Processing userId n)) w
         in case fetch_and_dispatch e userId notifId n w1 of
              (Some err, w') \<Rightarrow> (None, emit (ConsoleError (ErrFetching err)) w')
            | (None, w') \<Rightarrow> (None, w')))"

section \<open>The listener manager\<close>

text \<open>The handler of \<open>child_added\<close> on the top-level collection.\<close>

definition on_user_added :: "string \<Rightarrow> world \<Rightarrow> world" where
  "on_user_added userId w =
     (if userId \<in> activeListeners w then w
      else emit (Subscribe userId)
             (emit (ConsoleLog (Attaching userId))
                (w\<lparr>activeListeners := insert userId (activeListeners w)\<rparr>)))"

text \<open>
  What can happen to the process: a user key appears at the top level, a record appears
  under a user (delivered to that user's handler if one is attached, with the record as
  stored), or a producer writes a record.
\<close>

datatype event =
    UserAdded string
  | NotificationAdded env string string
  | RecordWritten string string jsobj

text \<open>
  One run of the per-record pipeline on the record as it is stored now: the snapshot
  handed to the handler is the stored record.
\<close>

definition pipeline :: "env \<Rightarrow> string \<Rightarrow> string \<Rightarrow> world \<Rightarrow> world" where
  "pipeline e userId notifId w =
     (case rtdb w (userId, notifId) of
        None \<Rightarrow> w
      | Some n \<Rightarrow> snd (on_notification_added e userId notifId n w))"

fun step :: "world \<Rightarrow> event \<Rightarrow> world" where
  "step w (UserAdded userId) = on_user_added userId w"
| "step w (NotificationAdded e userId notifId) =
     (if Subscribe userId \<in> set (effects w) then pipeline e userId notifId w else w)"
| "step w (RecordWritten userId notifId n) = w\<lparr>rtdb := (rtdb w)((userId, notifId) \<mapsto> n)\<rparr>"

definition run :: "world \<Rightarrow> event list \<Rightarrow> world" where
  "run w evs = foldl step w evs"

definition startup :: "(string \<times> string \<rightharpoonup> jsobj) \<Rightarrow> world" where
  "startup db = \<lparr>rtdb = db, activeListeners = {}, effects = []\<rparr>"

text \<open>The gateway calls and the subscriptions among a list of effects.\<close>

fun send_calls :: "effect list \<Rightarrow> fcm_message list" where
  "send_calls [] = []"
| "send_calls (MessagingSend m # xs) = m # send_calls xs"
| "send_calls (_ # xs) = send_calls xs"

fun subscriptions :: "effect list \<Rightarrow> string list" where
  "subscriptions [] = []"
| "subscriptions (Subscribe u # xs) = u # subscriptions xs"
| "subscriptions (_ # xs) = subscriptions xs"

text \<open>
  The registration invariant: the attached subscriptions are those of the registered users,
  each once.
\<close>

definition registered :: "world \<Rightarrow> bool" where
  "registered w \<longleftrightarrow>
     distinct (subscriptions (effects w)) \<and> set (subscriptions (effects w)) = activeListeners w"

text \<open>The effects a handler added to a world.\<close>

definition new_effects :: "world \<Rightarrow> world \<Rightarrow> effect list" where
  "new_effects w w' = drop (length (effects w)) (effects w')"

fun is_write :: "effect \<Rightarrow> bool" where
  "is_write (RtdbUpdate _ _ _) = True"
| "is_write _ = False"

fun is_fetch :: "effect \<Rightarrow> bool" where
  "is_fetch (FirestoreGet _) = True"
| "is_fetch _ = False"

section \<open>The HTTP server\<close>

record request =
  req_method :: string
  req_url :: string
  req_body :: string

text \<open>A response body: nothing, plain text, or the JSON text of an object literal.\<close>

datatype payload = Empty | Text string | Json "(string \<times> jsval) list"

record response =
  statusCode :: nat
  headers :: "(string \<times> string) list"
  payload :: payload

record user_record =
  uid :: string

text \<open>
  What the request handler cannot decide: how the body parses (\<open>Inl\<close> when
  \<open>JSON.parse\<close> or the destructuring of its result throws, otherwise the object whose
  \<open>email\<close> property is read) and the answers of the identity directory. The console
  lines of the request handler are left out of the model.
\<close>

record auth_env =
  json_parse :: "string \<Rightarrow> js_error + jsobj"
  getUserByEmail :: "jsval \<Rightarrow> user_record outcome"
  deleteUser :: "string \<Rightarrow> unit outcome"

definition cors_headers :: "(string \<times> string) list" where
  "cors_headers =
     [(''Access-Control-Allow-Origin'', ''*''),
      (''Access-Control-Allow-Methods'', ''POST, OPTIONS, GET''),
      (''Access-Control-Allow-Headers'', ''Content-Type'')]"

text \<open>The body of the \<open>try\<close> in the \<open>end\<close> callback: the response, or the error thrown.\<close>

definition delete_user_try :: "auth_env \<Rightarrow> string \<Rightarrow> js_error + response" where
  "delete_user_try a body_text =
     (case json_parse a body_text of
        Inl err \<Rightarrow> Inl err
      | Inr parsed \<Rightarrow>
          (let email = property parsed ''email''
           in if \<not> truthy email then Inl \<lparr>code = JUndefined, message = ''Email is required''\<rparr>
              else case getUserByEmail a email of
                     Rejected err \<Rightarrow> Inl err
                   | Resolved userRecord \<Rightarrow>
                       (case deleteUser a (uid userRecord) of
                          Rejected err \<Rightarrow> Inl err
                        | Resolved _ \<Rightarrow>
                            Inr \<lparr>statusCode = 200,
                                 headers = cors_headers @ [(''Content-Type'', ''application/json'')],
                                 payload = Json [(''success'', JBool True),
                                                 (''message'', JStr ''User deleted from Auth'')]\<rparr>)))"

text \<open>The \<open>try\<close> with its \<open>catch\<close>.\<close>

definition delete_user :: "auth_env \<Rightarrow> string \<Rightarrow> response" where
  "delete_user a body_text =
     (case delete_user_try a body_text of
        Inr res \<Rightarrow> res
      | Inl error \<Rightarrow>
          if code error = JStr ''auth/user-not-found''
          then \<lparr>statusCode = 200,
                headers = cors_headers @ [(''Content-Type'', ''application/json'')],
                payload = Json [(''success'', JBool True),
                                (''message'', JStr ''User already deleted'')]\<rparr>
          else \<lparr>statusCode = 500,
                headers = cors_headers @ [(''Content-Type'', ''application/json'')],
                payload = Json [(''success'', JBool False),
                                (''error'', JStr (message error))]\<rparr>)"

text \<open>The request listener.\<close>

definition handle_request :: "auth_env \<Rightarrow> request \<Rightarrow> response" where
  "handle_request a req =
     (if req_method req = ''OPTIONS''
      then \<lparr>statusCode = 204, headers = cors_headers, payload = Empty\<rparr>
      else if req_method req = ''POST'' \<and> req_url req = ''/delete-user''
      then delete_user a (req_body req)
      else \<lparr>statusCode = 200,
            headers = cors_headers @ [(''Content-Type'', ''text/plain'')],
            payload = Text ''Notification Service is Running\<newline>''\<rparr>)"

section \<open>Concrete scenarios\<close>

text \<open>
  The runtime's conversion of a string to a number, on the strings whose value is an
  integer written in decimal: white space around, an optional sign, digits; the empty
  string is 0. The runtime also converts literals with a fraction, an exponent, a radix
  prefix and \<open>Infinity\<close>; their values are not integers of this model, and this function
  answers \<open>NaN\<close> on them as it does on text that is no number at all. The theorems hold
  for every conversion and do not depend on this one; only the scenarios use it.
\<close>

definition is_space :: "char \<Rightarrow> bool" where
  "is_space c \<longleftrightarrow> (of_char c :: nat) \<in> {9, 10, 11, 12, 13, 32}"

definition is_digit :: "char \<Rightarrow> bool" where
  "is_digit c \<longleftrightarrow> 48 \<le> (of_char c :: nat) \<and> (of_char c :: nat) \<le> 57"

definition trim :: "string \<Rightarrow> string" where
  "trim s = rev (dropWhile is_space (rev (dropWhile is_space s)))"

definition digits_value :: "string \<Rightarrow> int" where
  "digits_value s = foldl (\<lambda>acc c. 10 * acc + (int (of_char c) - 48)) 0 s"

definition unsigned_decimal :: "string \<Rightarrow> jsnum" where
  "unsigned_decimal s = (if s \<noteq> [] \<and> list_all is_digit s then Finite (digits_value s) else NaN)"

definition negate :: "jsnum \<Rightarrow> jsnum" where
  "negate x = (case x of Finite k \<Rightarrow> Finite (- k) | NaN \<Rightarrow> NaN)"

definition decimal_string_to_number :: "string \<Rightarrow> jsnum" where
  "decimal_string_to_number s =
     (case trim s of
        [] \<Rightarrow> Finite 0
      | c # r \<Rightarrow>
          if c = CHR ''-'' then negate (unsigned_decimal r)
          else if c = CHR ''+'' then unsigned_decimal r
          else unsigned_decimal (c # r))"

text \<open>
  A clock reading, a profile store that knows the token \<open>tok123\<close>, a gateway that accepts
  and a change-feed that acknowledges the write.
\<close>

definition scenario_env :: env where
  "scenario_env =
     \<lparr>date_now = 1700000000000,
      string_to_number = decimal_string_to_number,
      firestore_get = (\<lambda>u. Resolved \<lparr>exists = True, userData = [''fcmToken'' \<mapsto> JStr ''tok123'']\<rparr>),
      messaging_send = (\<lambda>m. Resolved ''projects/p/messages/1''),
      child_update = (\<lambda>u i. Resolved ())\<rparr>"

definition scenario_a_record :: jsobj where
  "scenario_a_record =
     [''title'' \<mapsto> JStr ''Hi'', ''body'' \<mapsto> JStr ''New grade posted'',
      ''timestamp'' \<mapsto> JNum 1700000000000, ''processed'' \<mapsto> JBool False]"

definition scenario_world :: world where
  "scenario_world = startup [(''u1'', ''n1'') \<mapsto> scenario_a_record]"

definition scenario_doc :: user_doc where
  "scenario_doc = \<lparr>exists = True, userData = [''fcmToken'' \<mapsto> JStr ''tok123'']\<rparr>"

text \<open>The same record, ten minutes old.\<close>

definition stale_record :: jsobj where
  "stale_record = scenario_a_record(''timestamp'' \<mapsto> JNum 1699999400000)"

text \<open>A change-feed that holds both records, the stale one as a sibling.\<close>

definition two_record_world :: world where
  "two_record_world =
     startup [(''u1'', ''n1'') \<mapsto> scenario_a_record, (''u1'', ''n2'') \<mapsto> stale_record]"

text \<open>A profile without a token, no profile at all, and a gateway that rejects.\<close>

definition no_token_env :: env where
  "no_token_env = scenario_env\<lparr>firestore_get := (\<lambda>u. Resolved \<lparr>exists = True, userData = Map.empty\<rparr>)\<rparr>"

definition no_doc_env :: env where
  "no_doc_env = scenario_env\<lparr>firestore_get := (\<lambda>u. Resolved \<lparr>exists = False, userData = Map.empty\<rparr>)\<rparr>"

definition delivery_error :: js_error where
  "delivery_error =
     \<lparr>code = JStr ''messaging/registration-token-not-registered'',
      message = ''Requested entity was not found.''\<rparr>"

definition send_fails_env :: env where
  "send_fails_env = scenario_env\<lparr>messaging_send := (\<lambda>m. Rejected delivery_error)\<rparr>"

text \<open>Records with a link and a type, and with an empty link and an empty type.\<close>

definition linked_record :: jsobj where
  "linked_record = scenario_a_record(''link'' \<mapsto> JStr ''/grades'', ''type'' \<mapsto> JStr ''grade'')"

definition empty_link_record :: jsobj where
  "empty_link_record = scenario_a_record(''link'' \<mapsto> JStr [], ''type'' \<mapsto> JStr [])"





text \<open>
  An identity directory that knows the account, one that does not, and one that fails;
  the body parses to an object with an \<open>email\<close>.
\<close>

definition delete_request :: request where
  "delete_request = \<lparr>req_method = ''POST'', req_url = ''/delete-user'', req_body = ''{\"email\":\"a@b.c\"}''\<rparr>"

definition directory_ok :: auth_env where
  "directory_ok =
     \<lparr>json_parse = (\<lambda>s. Inr [''email'' \<mapsto> JStr ''a@b.c'']),
      getUserByEmail = (\<lambda>m. Resolved \<lparr>uid = ''uid1''\<rparr>),
      deleteUser = (\<lambda>i. Resolved ())\<rparr>"

definition not_found_error :: js_error where
  "not_found_error = \<lparr>code = JStr ''auth/user-not-found'', message = ''No user record.''\<rparr>"

definition internal_error :: js_error where
  "internal_error = \<lparr>code = JStr ''auth/internal-error'', message = ''An internal error has occurred.''\<rparr>"

definition directory_absent :: auth_env where
  "directory_absent = directory_ok\<lparr>getUserByEmail := (\<lambda>m. Rejected not_found_error)\<rparr>"

definition directory_failing :: auth_env where
  "directory_failing = directory_ok\<lparr>getUserByEmail := (\<lambda>m. Rejected internal_error)\<rparr>"

section \<open>Facts about one run of the handler\<close>

lemma send_calls_append [simp]: "send_calls (xs @ ys) = send_calls xs @ send_calls ys"
  by (induction xs rule: send_calls.induct) simp_all

lemma subscriptions_append [simp]: "subscriptions (xs @ ys) = subscriptions xs @ subscriptions ys"
  by (induction xs rule: subscriptions.induct) simp_all

lemma new_effects_same [simp]: "new_effects w w = []"
  by (simp add: new_effects_def)

text \<open>The handler's two guards are \<open>decide\<close>.\<close>

lemma handler_guards:
  "on_notification_added e u i n w =
     (case decide e n of
        Skip \<Rightarrow> (None, w)
      | Proceed \<Rightarrow>
          (case fetch_and_dispatch e u i n (emit (ConsoleLog (Processing u n)) w) of
             (Some err, w') \<Rightarrow> (None, emit (ConsoleError (ErrFetching err)) w')
           | (None, w') \<Rightarrow> (None, w')))"
  by (simp add: on_notification_added_def decide_def)

text \<open>Each path through the handler, with the world it leaves.\<close>

lemma run_skip:
  "decide e n = Skip \<Longrightarrow> on_notification_added e u i n w = (None, w)"
  by (simp add: handler_guards)

lemma run_fetch_rejected:
  assumes "decide e n = Proceed" and "firestore_get e u = Rejected err"
  shows "on_notification_added e u i n w =
           (None, w\<lparr>effects := effects w @
              [ConsoleLog (Processing u n), ConsoleLog (Fetching u), FirestoreGet u,
               ConsoleError (ErrFetching err)]\<rparr>)"
  using assms by (simp add: handler_guards fetch_and_dispatch_def emit_def)

lemma run_no_doc:
  assumes "decide e n = Proceed" and "firestore_get e u = Resolved d" and "\<not> exists d"
  shows "on_notification_added e u i n w =
           (None, w\<lparr>effects := effects w @
              [ConsoleLog (Processing u n), ConsoleLog (Fetching u), FirestoreGet u,
               ConsoleLog (NoDoc u)]\<rparr>)"
  using assms by (simp add: handler_guards fetch_and_dispatch_def emit_def)

lemma run_no_token:
  assumes "decide e n = Proceed" and "firestore_get e u = Resolved d" and "exists d"
    and "\<not> truthy (property (userData d) ''fcmToken'')"
  shows "on_notification_added e u i n w =
           (None, w\<lparr>effects := effects w @
              [ConsoleLog (Processing u n), ConsoleLog (Fetching u), FirestoreGet u,
               ConsoleLog (UserFound u False), ConsoleLog (NoToken u)]\<rparr>)"
  using assms by (simp add: handler_guards fetch_and_dispatch_def emit_def Let_def)

lemma run_send_rejected:
  assumes "decide e n = Proceed" and "firestore_get e u = Resolved d" and "exists d"
    and "truthy (property (userData d) ''fcmToken'')"
    and "messaging_send e (build_message (property (userData d) ''fcmToken'') n) = Rejected err"
  shows "on_notification_added e u i n w =
           (None, w\<lparr>effects := effects w @
              [ConsoleLog (Processing u n), ConsoleLog (Fetching u), FirestoreGet u,
               ConsoleLog (UserFound u True), ConsoleLog (SendingTo u),
               MessagingSend (build_message (property (userData d) ''fcmToken'') n),
               ConsoleError (ErrSending err)]\<rparr>)"
  using assms
  by (simp add: handler_guards fetch_and_dispatch_def try_send_def send_and_mark_def emit_def Let_def)

lemma run_update_rejected:
  assumes "decide e n = Proceed" and "firestore_get e u = Resolved d" and "exists d"
    and "truthy (property (userData d) ''fcmToken'')"
    and "messaging_send e (build_message (property (userData d) ''fcmToken'') n) = Resolved r"
    and "child_update e u i = Rejected err"
  shows "on_notification_added e u i n w =
           (None, w\<lparr>effects := effects w @
              [ConsoleLog (Processing u n), ConsoleLog (Fetching u), FirestoreGet u,
               ConsoleLog (UserFound u True), ConsoleLog (SendingTo u),
               MessagingSend (build_message (property (userData d) ''fcmToken'') n),
               ConsoleLog (SentOk r), RtdbUpdate u i [(''processed'', JBool True)],
               ConsoleError (ErrSending err)]\<rparr>)"
  using assms
  by (simp add: handler_guards fetch_and_dispatch_def try_send_def send_and_mark_def emit_def Let_def)

lemma run_delivered:
  assumes "decide e n = Proceed" and "firestore_get e u = Resolved d" and "exists d"
    and "truthy (property (userData d) ''fcmToken'')"
    and "messaging_send e (build_message (property (userData d) ''fcmToken'') n) = Resolved r"
    and "child_update e u i = Resolved x"
  shows "on_notification_added e u i n w =
           (None, w\<lparr>rtdb := (rtdb w)((u, i) \<mapsto>
                       (case rtdb w (u, i) of None \<Rightarrow> Map.empty | Some s \<Rightarrow> s)
                         (''processed'' \<mapsto> JBool True)),
                    effects := effects w @
              [ConsoleLog (Processing u n), ConsoleLog (Fetching u), FirestoreGet u,
               ConsoleLog (UserFound u True), ConsoleLog (SendingTo u),
               MessagingSend (build_message (property (userData d) ''fcmToken'') n),
               ConsoleLog (SentOk r), RtdbUpdate u i [(''processed'', JBool True)],
               ConsoleLog (Marked i)]\<rparr>)"
  using assms
  by (simp add: handler_guards fetch_and_dispatch_def try_send_def send_and_mark_def emit_def Let_def
      apply_update_def update_children_def)

text \<open>These seven paths are all there are.\<close>

lemma run_cases [case_names Skipped FetchRejected NoDoc NoToken SendRejected UpdateRejected Delivered]:
  obtains
    "decide e n = Skip"
  | err where "decide e n = Proceed" "firestore_get e u = Rejected err"
  | d where "decide e n = Proceed" "firestore_get e u = Resolved d" "\<not> exists d"
  | d where "decide e n = Proceed" "firestore_get e u = Resolved d" "exists d"
      "\<not> truthy (property (userData d) ''fcmToken'')"
  | d err where "decide e n = Proceed" "firestore_get e u = Resolved d" "exists d"
      "truthy (property (userData d) ''fcmToken'')"
      "messaging_send e (build_message (property (userData d) ''fcmToken'') n) = Rejected err"
  | d r err where "decide e n = Proceed" "firestore_get e u = Resolved d" "exists d"
      "truthy (property (userData d) ''fcmToken'')"
      "messaging_send e (build_message (property (userData d) ''fcmToken'') n) = Resolved r"
      "child_update e u i = Rejected err"
  | d r x where "decide e n = Proceed" "firestore_get e u = Resolved d" "exists d"
      "truthy (property (userData d) ''fcmToken'')"
      "messaging_send e (build_message (property (userData d) ''fcmToken'') n) = Resolved r"
      "child_update e u i = Resolved x"
proof (cases "decide e n")
  case Skip
  then show ?thesis by (rule that(1))
next
  case Proceed
  show ?thesis
  proof (cases "firestore_get e u")
    case (Rejected err)
    with Proceed show ?thesis by (rule that(2))
  next
    case got: (Resolved d)
    show ?thesis
    proof (cases "exists d")
      case False
      with Proceed got show ?thesis by (rule that(3))
    next
      case True
      show ?thesis
      proof (cases "truthy (property (userData d) ''fcmToken'')")
        case False
        with Proceed got True show ?thesis by (rule that(4))
      next
        case tok: True
        show ?thesis
        proof (cases "messaging_send e (build_message (property (userData d) ''fcmToken'') n)")
          case (Rejected err)
          with Proceed got True tok show ?thesis by (rule that(5))
        next
          case sent: (Resolved r)
          show ?thesis
          proof (cases "child_update e u i")
            case (Rejected err)
            with Proceed got True tok sent show ?thesis by (rule that(6))
          next
            case (Resolved x)
            with Proceed got True tok sent show ?thesis by (rule that(7))
          qed
        qed
      qed
    qed
  qed
qed


text \<open>The stored records change on the delivered path only.\<close>

lemma run_rtdb_cases:
  "rtdb (snd (on_notification_added e u i n w)) = rtdb w \<or>
   (decide e n = Proceed \<and>
    (\<exists>d r x. firestore_get e u = Resolved d \<and> exists d \<and>
        truthy (property (userData d) ''fcmToken'') \<and>
        messaging_send e (build_message (property (userData d) ''fcmToken'') n) = Resolved r \<and>
        child_update e u i = Resolved x))"
  by (cases rule: run_cases [where e = e and n = n and u = u and i = i])
     (simp_all add: run_skip run_fetch_rejected run_no_doc run_no_token run_send_rejected
        run_update_rejected)

text \<open>Scenario A, run once.\<close>

lemma scenario_a_decide: "decide scenario_env scenario_a_record = Proceed"
  by (simp add: decide_def too_old_def scenario_env_def scenario_a_record_def property_def)

lemma scenario_a_run:
  "on_notification_added scenario_env ''u1'' ''n1'' scenario_a_record scenario_world =
     (None,
      scenario_world\<lparr>rtdb := [(''u1'', ''n1'') \<mapsto> scenario_a_record(''processed'' \<mapsto> JBool True)],
        effects :=
          [ConsoleLog (Processing ''u1'' scenario_a_record), ConsoleLog (Fetching ''u1''),
           FirestoreGet ''u1'', ConsoleLog (UserFound ''u1'' True), ConsoleLog (SendingTo ''u1''),
           MessagingSend (build_message (JStr ''tok123'') scenario_a_record),
           ConsoleLog (SentOk ''projects/p/messages/1''),
           RtdbUpdate ''u1'' ''n1'' [(''processed'', JBool True)],
           ConsoleLog (Marked ''n1'')]\<rparr>)"
  by (subst run_delivered [where d = scenario_doc and r = "''projects/p/messages/1''" and x = "()"])
     (simp_all add: scenario_a_decide,
      simp_all add: scenario_env_def scenario_doc_def scenario_world_def startup_def property_def)

lemma scenario_a_pipeline:
  "pipeline scenario_env ''u1'' ''n1'' scenario_world =
     scenario_world\<lparr>rtdb := [(''u1'', ''n1'') \<mapsto> scenario_a_record(''processed'' \<mapsto> JBool True)],
       effects :=
         [ConsoleLog (Processing ''u1'' scenario_a_record), ConsoleLog (Fetching ''u1''),
          FirestoreGet ''u1'', ConsoleLog (UserFound ''u1'' True), ConsoleLog (SendingTo ''u1''),
          MessagingSend (build_message (JStr ''tok123'') scenario_a_record),
          ConsoleLog (SentOk ''projects/p/messages/1''),
          RtdbUpdate ''u1'' ''n1'' [(''processed'', JBool True)],
          ConsoleLog (Marked ''n1'')]\<rparr>"
proof -
  have "rtdb scenario_world (''u1'', ''n1'') = Some scenario_a_record"
    by (simp add: scenario_world_def startup_def)
  then show ?thesis
    by (simp add: pipeline_def scenario_a_run)
qed

section \<open>The pipeline run twice\<close>

text \<open>
  Claim C1. A record is stored without the processed flag; the pipeline runs on it and
  leaves it stored with \<open>processed = true\<close> (so the dispatch succeeded and the marker was
  written). Then a second run of the pipeline on the same user and notification key, with
  whatever clock and collaborators, sees the flag, is skipped by the guards and changes
  nothing: over both runs the gateway was called exactly once.
\<close>

theorem pipeline_twice_one_send:
  assumes stored: "rtdb w (u, i) = Some n"
    and unmarked: "\<not> truthy (property n ''processed'')"
    and marked: "rtdb (pipeline e1 u i w) (u, i) = Some n'" "property n' ''processed'' = JBool True"
  shows "decide e2 n' = Skip
       \<and> pipeline e2 u i (pipeline e1 u i w) = pipeline e1 u i w
       \<and> length (send_calls (new_effects w (pipeline e2 u i (pipeline e1 u i w)))) = 1
       \<and> (\<exists>m r. send_calls (new_effects w (pipeline e1 u i w)) = [m]
                \<and> messaging_send e1 m = Resolved r)"
proof -
  have p1: "pipeline e1 u i w = snd (on_notification_added e1 u i n w)"
    using stored by (simp add: pipeline_def)
  have changed: "rtdb (pipeline e1 u i w) \<noteq> rtdb w"
    using stored unmarked marked by auto
  with p1 run_rtdb_cases [of e1 u i n w]
  obtain d r x where ok: "decide e1 n = Proceed" "firestore_get e1 u = Resolved d" "exists d"
      "truthy (property (userData d) ''fcmToken'')"
      "messaging_send e1 (build_message (property (userData d) ''fcmToken'') n) = Resolved r"
      "child_update e1 u i = Resolved x"
    by auto
  have skip: "decide e2 n' = Skip"
    using marked by (simp add: decide_def)
  have second: "pipeline e2 u i (pipeline e1 u i w) = pipeline e1 u i w"
    using marked skip by (simp add: pipeline_def [of e2] run_skip)
  have "send_calls (new_effects w (pipeline e1 u i w)) =
          [build_message (property (userData d) ''fcmToken'') n]"
    unfolding p1 run_delivered [OF ok] by (simp add: new_effects_def)
  with skip second ok(5) show ?thesis by simp
qed

theorem pipeline_twice_one_send_witness:
  "rtdb scenario_world (''u1'', ''n1'') = Some scenario_a_record
   \<and> rtdb (pipeline scenario_env ''u1'' ''n1'' scenario_world) (''u1'', ''n1'')
       = Some (scenario_a_record(''processed'' \<mapsto> JBool True))
   \<and> decide scenario_env (scenario_a_record(''processed'' \<mapsto> JBool True)) = Skip
   \<and> pipeline scenario_env ''u1'' ''n1'' (pipeline scenario_env ''u1'' ''n1'' scenario_world)
       = pipeline scenario_env ''u1'' ''n1'' scenario_world
   \<and> length (send_calls (new_effects scenario_world
        (pipeline scenario_env ''u1'' ''n1'' (pipeline scenario_env ''u1'' ''n1'' scenario_world)))) = 1
   \<and> (\<exists>m r. send_calls (new_effects scenario_world (pipeline scenario_env ''u1'' ''n1'' scenario_world))
                = [m]
            \<and> messaging_send scenario_env m = Resolved r)"
proof -
  have stored: "rtdb scenario_world (''u1'', ''n1'') = Some scenario_a_record"
    by (simp add: scenario_world_def startup_def)
  have unmarked: "\<not> truthy (property scenario_a_record ''processed'')"
    by (simp add: scenario_a_record_def property_def)
  have marked: "rtdb (pipeline scenario_env ''u1'' ''n1'' scenario_world) (''u1'', ''n1'')
                  = Some (scenario_a_record(''processed'' \<mapsto> JBool True))"
    by (simp add: scenario_a_pipeline)
  have flag: "property (scenario_a_record(''processed'' \<mapsto> JBool True)) ''processed'' = JBool True"
    by (simp add: property_def)
  show ?thesis
    using pipeline_twice_one_send [OF stored unmarked marked flag, of scenario_env] stored marked
    by blast
qed

section \<open>The filter\<close>

text \<open>A run that passes the guards begins with the log line and the profile fetch.\<close>

lemma proceed_prefix:
  assumes "decide e n = Proceed"
  shows "take 3 (new_effects w (snd (on_notification_added e u i n w))) =
           [ConsoleLog (Processing u n), ConsoleLog (Fetching u), FirestoreGet u]"
  using assms
  by (cases rule: run_cases [where e = e and n = n and u = u and i = i])
     (simp_all add: run_fetch_rejected run_no_doc run_no_token run_send_rejected
        run_update_rejected run_delivered new_effects_def)

text \<open>The handler returns at once, with nothing done, exactly when the guards say skip.\<close>

lemma skip_iff:
  "on_notification_added e u i n w = (None, w) \<longleftrightarrow> decide e n = Skip"
proof
  assume same: "on_notification_added e u i n w = (None, w)"
  show "decide e n = Skip"
  proof (cases "decide e n")
    case Skip
    then show ?thesis .
  next
    case Proceed
    from proceed_prefix [OF this, where w = w and u = u and i = i] same
    show ?thesis by simp
  qed
next
  assume "decide e n = Skip"
  then show "on_notification_added e u i n w = (None, w)"
    by (rule run_skip)
qed

text \<open>
  Claim C2. The handler decides by the record and the clock, by three rules in order: a
  record whose processed flag is true is skipped; a record whose age, the clock reading
  minus its timestamp, exceeds 300000 ms is skipped; a record whose processed flag is
  unset or false and whose age is at most 300000 ms proceeds. Skipped means that the
  handler returns the world it was given; proceeding means that it logs the record and
  fetches the profile. These are the two answers of \<open>decide\<close>.
\<close>

theorem decide_rules:
  "(decide e n = Skip \<longleftrightarrow> on_notification_added e u i n w = (None, w)) \<and>
   (decide e n = Proceed \<longleftrightarrow>
      take 3 (new_effects w (snd (on_notification_added e u i n w))) =
        [ConsoleLog (Processing u n), ConsoleLog (Fetching u), FirestoreGet u]) \<and>
   (property n ''processed'' = JBool True \<longrightarrow>
      decide e n = Skip \<and> on_notification_added e u i n w = (None, w)) \<and>
   (property n ''timestamp'' = JNum t \<and> date_now e - t > 300000 \<longrightarrow>
      decide e n = Skip \<and> on_notification_added e u i n w = (None, w)) \<and>
   (property n ''processed'' \<in> {JUndefined, JBool False} \<and> property n ''timestamp'' = JNum t \<and>
      date_now e - t \<le> 300000 \<longrightarrow>
      decide e n = Proceed \<and>
      take 3 (new_effects w (snd (on_notification_added e u i n w))) =
        [ConsoleLog (Processing u n), ConsoleLog (Fetching u), FirestoreGet u])"
proof -
  have skip: "decide e n = Skip \<longleftrightarrow> on_notification_added e u i n w = (None, w)"
    by (simp add: skip_iff)
  have go: "decide e n = Proceed \<longleftrightarrow>
      take 3 (new_effects w (snd (on_notification_added e u i n w))) =
        [ConsoleLog (Processing u n), ConsoleLog (Fetching u), FirestoreGet u]"
  proof (cases "decide e n")
    case Skip
    then show ?thesis by (simp add: run_skip)
  next
    case Proceed
    then show ?thesis by (simp add: proceed_prefix)
  qed
  have r1: "decide e n = Skip" if "property n ''processed'' = JBool True"
    using that by (simp add: decide_def)
  have r2: "decide e n = Skip" if "property n ''timestamp'' = JNum t \<and> date_now e - t > 300000"
    using that by (simp add: decide_def too_old_def)
  have r3: "decide e n = Proceed"
    if "property n ''processed'' \<in> {JUndefined, JBool False} \<and> property n ''timestamp'' = JNum t \<and>
      date_now e - t \<le> 300000"
    using that by (auto simp: decide_def too_old_def)
  from skip go r1 r2 r3 show ?thesis by blast
qed

theorem decide_rules_witness:
  "on_notification_added scenario_env ''u1'' ''n1''
     (scenario_a_record(''processed'' \<mapsto> JBool True)) scenario_world = (None, scenario_world) \<and>
   on_notification_added scenario_env ''u1'' ''n1'' stale_record scenario_world = (None, scenario_world) \<and>
   decide scenario_env scenario_a_record = Proceed \<and>
   take 3 (new_effects scenario_world
       (snd (on_notification_added scenario_env ''u1'' ''n1'' scenario_a_record scenario_world))) =
     [ConsoleLog (Processing ''u1'' scenario_a_record), ConsoleLog (Fetching ''u1''), FirestoreGet ''u1'']"
proof -
  have now: "date_now scenario_env = 1700000000000"
    by (simp add: scenario_env_def)
  have "property (scenario_a_record(''processed'' \<mapsto> JBool True)) ''processed'' = JBool True"
    by (simp add: property_def)
  with decide_rules [where n = "scenario_a_record(''processed'' \<mapsto> JBool True)" and e = scenario_env
      and u = "''u1''" and i = "''n1''" and w = scenario_world]
  have one: "on_notification_added scenario_env ''u1'' ''n1''
     (scenario_a_record(''processed'' \<mapsto> JBool True)) scenario_world = (None, scenario_world)"
    by blast
  have "property stale_record ''timestamp'' = JNum 1699999400000
        \<and> date_now scenario_env - 1699999400000 > 300000"
    by (simp add: property_def stale_record_def now)
  with decide_rules [where n = stale_record and t = 1699999400000 and e = scenario_env
      and u = "''u1''" and i = "''n1''" and w = scenario_world]
  have two: "on_notification_added scenario_env ''u1'' ''n1'' stale_record scenario_world
               = (None, scenario_world)"
    by blast
  have "property scenario_a_record ''processed'' \<in> {JUndefined, JBool False}
        \<and> property scenario_a_record ''timestamp'' = JNum 1700000000000
        \<and> date_now scenario_env - 1700000000000 \<le> 300000"
    by (simp add: property_def scenario_a_record_def now)
  with decide_rules [where n = scenario_a_record and t = 1700000000000 and e = scenario_env
      and u = "''u1''" and i = "''n1''" and w = scenario_world]
  have three: "decide scenario_env scenario_a_record = Proceed \<and>
     take 3 (new_effects scenario_world
       (snd (on_notification_added scenario_env ''u1'' ''n1'' scenario_a_record scenario_world))) =
     [ConsoleLog (Processing ''u1'' scenario_a_record), ConsoleLog (Fetching ''u1''), FirestoreGet ''u1'']"
    by blast
  from one two three show ?thesis by blast
qed

text \<open>
  Claim C8. A record whose age exceeds 300000 ms leaves the handler at the staleness
  guard: the handler returns the world it was given, so there is no profile fetch, no
  gateway call and no write, and the stored records are as before.
\<close>

theorem stale_record_untouched:
  assumes "property n ''timestamp'' = JNum t" and "date_now e - t > 300000"
  shows "on_notification_added e u i n w = (None, w)
       \<and> filter is_fetch (new_effects w (snd (on_notification_added e u i n w))) = []
       \<and> send_calls (new_effects w (snd (on_notification_added e u i n w))) = []
       \<and> filter is_write (new_effects w (snd (on_notification_added e u i n w))) = []
       \<and> rtdb (snd (on_notification_added e u i n w)) = rtdb w"
proof -
  have "decide e n = Skip"
    using assms by (simp add: decide_def too_old_def)
  then show ?thesis by (simp add: run_skip)
qed

theorem stale_record_untouched_witness:
  "property stale_record ''timestamp'' = JNum 1699999400000
   \<and> date_now scenario_env - 1699999400000 = 600000
   \<and> on_notification_added scenario_env ''u1'' ''n1'' stale_record scenario_world = (None, scenario_world)"
proof -
  have ts: "property stale_record ''timestamp'' = JNum 1699999400000"
    by (simp add: stale_record_def property_def)
  have age: "date_now scenario_env - 1699999400000 > 300000"
    by (simp add: scenario_env_def)
  show ?thesis
    using stale_record_untouched [OF ts age, where u = "''u1''" and i = "''n1''" and w = scenario_world] ts
    by (simp add: scenario_env_def)
qed




section \<open>Facts about the scenarios\<close>

lemma scenario_doc_simps:
  "exists scenario_doc" "property (userData scenario_doc) ''fcmToken'' = JStr ''tok123''"
  by (simp_all add: scenario_doc_def property_def)

lemma scenario_env_simps:
  "firestore_get scenario_env u = Resolved scenario_doc"
  "messaging_send scenario_env m = Resolved ''projects/p/messages/1''"
  "child_update scenario_env u i = Resolved ()"
  "date_now scenario_env = 1700000000000"
  by (simp_all add: scenario_env_def scenario_doc_def)

lemma send_fails_env_simps:
  "decide send_fails_env scenario_a_record = Proceed"
  "firestore_get send_fails_env ''u1'' = Resolved scenario_doc"
  "messaging_send send_fails_env m = Rejected delivery_error"
  by (simp_all add: send_fails_env_def scenario_env_def scenario_doc_def decide_def too_old_def
      scenario_a_record_def property_def)

section \<open>Dispatch failure\<close>

text \<open>A write to the change-feed is issued only after the gateway accepted the message.\<close>

lemma write_needs_send:
  assumes "filter is_write (new_effects w (snd (on_notification_added e u i n w))) \<noteq> []"
  shows "\<exists>d r. firestore_get e u = Resolved d \<and>
           messaging_send e (build_message (property (userData d) ''fcmToken'') n) = Resolved r"
  using assms
  by (cases rule: run_cases [where e = e and n = n and u = u and i = i])
     (simp_all add: run_skip run_fetch_rejected run_no_doc run_no_token run_send_rejected
        run_update_rejected run_delivered new_effects_def)

text \<open>
  Claim C3. For a record that reaches dispatch (it passes the guards, the profile exists and
  has a token): if the gateway call throws, the handler completes without throwing, the
  stored records are unchanged, and what the handler did is exactly the log lines, the
  profile fetch, the one gateway call and the logged error; there is no write and no
  second call. And in every run, a write to the change-feed is issued only if the gateway
  call resolved.
\<close>

theorem send_failure_contained:
  "(decide e n = Proceed \<and> firestore_get e u = Resolved d \<and> exists d \<and>
    truthy (property (userData d) ''fcmToken'') \<and>
    messaging_send e (build_message (property (userData d) ''fcmToken'') n) = Rejected err
    \<longrightarrow> fst (on_notification_added e u i n w) = None
      \<and> rtdb (snd (on_notification_added e u i n w)) = rtdb w
      \<and> new_effects w (snd (on_notification_added e u i n w)) =
          [ConsoleLog (Processing u n), ConsoleLog (Fetching u), FirestoreGet u,
           ConsoleLog (UserFound u True), ConsoleLog (SendingTo u),
           MessagingSend (build_message (property (userData d) ''fcmToken'') n),
           ConsoleError (ErrSending err)])
   \<and> (filter is_write (new_effects w (snd (on_notification_added e u i n w))) \<noteq> []
      \<longrightarrow> (\<exists>d r. firestore_get e u = Resolved d \<and>
             messaging_send e (build_message (property (userData d) ''fcmToken'') n) = Resolved r))"
proof (intro conjI impI)
  assume a: "decide e n = Proceed \<and> firestore_get e u = Resolved d \<and> exists d \<and>
    truthy (property (userData d) ''fcmToken'') \<and>
    messaging_send e (build_message (property (userData d) ''fcmToken'') n) = Rejected err"
  then have run: "on_notification_added e u i n w =
           (None, w\<lparr>effects := effects w @
              [ConsoleLog (Processing u n), ConsoleLog (Fetching u), FirestoreGet u,
               ConsoleLog (UserFound u True), ConsoleLog (SendingTo u),
               MessagingSend (build_message (property (userData d) ''fcmToken'') n),
               ConsoleError (ErrSending err)]\<rparr>)"
    by (simp add: run_send_rejected)
  show "fst (on_notification_added e u i n w) = None"
    by (simp add: run)
  show "rtdb (snd (on_notification_added e u i n w)) = rtdb w"
    by (simp add: run)
  show "new_effects w (snd (on_notification_added e u i n w)) =
          [ConsoleLog (Processing u n), ConsoleLog (Fetching u), FirestoreGet u,
           ConsoleLog (UserFound u True), ConsoleLog (SendingTo u),
           MessagingSend (build_message (property (userData d) ''fcmToken'') n),
           ConsoleError (ErrSending err)]"
    by (simp add: run new_effects_def)
next
  assume "filter is_write (new_effects w (snd (on_notification_added e u i n w))) \<noteq> []"
  then show "\<exists>d r. firestore_get e u = Resolved d \<and>
             messaging_send e (build_message (property (userData d) ''fcmToken'') n) = Resolved r"
    by (rule write_needs_send)
qed

theorem send_failure_contained_witness:
  "messaging_send send_fails_env (build_message (JStr ''tok123'') scenario_a_record) = Rejected delivery_error
   \<and> fst (on_notification_added send_fails_env ''u1'' ''n1'' scenario_a_record scenario_world) = None
   \<and> rtdb (snd (on_notification_added send_fails_env ''u1'' ''n1'' scenario_a_record scenario_world))
       = rtdb scenario_world
   \<and> new_effects scenario_world
        (snd (on_notification_added send_fails_env ''u1'' ''n1'' scenario_a_record scenario_world)) =
          [ConsoleLog (Processing ''u1'' scenario_a_record), ConsoleLog (Fetching ''u1''),
           FirestoreGet ''u1'', ConsoleLog (UserFound ''u1'' True), ConsoleLog (SendingTo ''u1''),
           MessagingSend (build_message (JStr ''tok123'') scenario_a_record),
           ConsoleError (ErrSending delivery_error)]
   \<and> filter is_write (new_effects scenario_world
        (snd (on_notification_added scenario_env ''u1'' ''n1'' scenario_a_record scenario_world))) \<noteq> []
   \<and> (\<exists>d r. firestore_get scenario_env ''u1'' = Resolved d \<and>
         messaging_send scenario_env (build_message (property (userData d) ''fcmToken'') scenario_a_record)
           = Resolved r)"
proof -
  have hyp: "decide send_fails_env scenario_a_record = Proceed \<and>
      firestore_get send_fails_env ''u1'' = Resolved scenario_doc \<and> exists scenario_doc \<and>
      truthy (property (userData scenario_doc) ''fcmToken'') \<and>
      messaging_send send_fails_env
        (build_message (property (userData scenario_doc) ''fcmToken'') scenario_a_record)
        = Rejected delivery_error"
    by (simp add: send_fails_env_simps scenario_doc_simps)
  have written: "filter is_write (new_effects scenario_world
        (snd (on_notification_added scenario_env ''u1'' ''n1'' scenario_a_record scenario_world))) \<noteq> []"
  proof -
    have "effects scenario_world = []"
      by (simp add: scenario_world_def startup_def)
    then show ?thesis
      by (simp add: scenario_a_run new_effects_def)
  qed
  have rejected: "messaging_send send_fails_env (build_message (JStr ''tok123'') scenario_a_record)
      = Rejected delivery_error"
    by (simp add: send_fails_env_simps)
  show ?thesis
    using send_failure_contained
      [where e = send_fails_env and n = scenario_a_record and u = "''u1''" and d = scenario_doc
         and err = delivery_error and i = "''n1''" and w = scenario_world]
      send_failure_contained
      [where e = scenario_env and n = scenario_a_record and u = "''u1''" and i = "''n1''"
         and w = scenario_world]
      hyp written rejected
    unfolding scenario_doc_simps
    by blast
qed

section \<open>The message sent\<close>

text \<open>A record that reaches dispatch makes one gateway call, with the message built from it.\<close>

lemma sends_on_dispatch:
  assumes "decide e n = Proceed" and "firestore_get e u = Resolved d" and "exists d"
    and "truthy (property (userData d) ''fcmToken'')"
  shows "send_calls (new_effects w (snd (on_notification_added e u i n w))) =
           [build_message (property (userData d) ''fcmToken'') n]"
proof (cases "messaging_send e (build_message (property (userData d) ''fcmToken'') n)")
  case (Rejected err)
  with assms show ?thesis by (simp add: run_send_rejected new_effects_def)
next
  case sent: (Resolved r)
  show ?thesis
  proof (cases "child_update e u i")
    case (Rejected err)
    with assms sent show ?thesis by (simp add: run_update_rejected new_effects_def)
  next
    case (Resolved x)
    with assms sent show ?thesis by (simp add: run_delivered new_effects_def)
  qed
qed

text \<open>
  Claim C5, as stated, fails for a record whose link is present but empty: the url sent is
  \<open>/\<close>, not the record's link; likewise an empty type is sent as \<open>info\<close>.
\<close>

theorem empty_link_counterexample:
  "decide scenario_env empty_link_record = Proceed
   \<and> property empty_link_record ''link'' = JStr []
   \<and> property empty_link_record ''type'' = JStr []
   \<and> send_calls (new_effects scenario_world
        (snd (on_notification_added scenario_env ''u1'' ''n1'' empty_link_record scenario_world)))
      = [\<lparr>token = JStr ''tok123'', notification = None,
           data = \<lparr>title = JStr ''Hi'', body = JStr ''New grade posted'', url = JStr ''/'',
                    type = JStr ''info'',
                    icon = JStr ''https://educationfyp.vercel.app/report.png''\<rparr>,
           webpush_fcm_options_link = JStr ''/''\<rparr>]"
proof -
  have props: "property empty_link_record ''link'' = JStr []"
      "property empty_link_record ''type'' = JStr []"
      "property empty_link_record ''title'' = JStr ''Hi''"
      "property empty_link_record ''body'' = JStr ''New grade posted''"
      "property empty_link_record ''processed'' = JBool False"
      "property empty_link_record ''timestamp'' = JNum 1700000000000"
    by (simp_all add: empty_link_record_def scenario_a_record_def property_def)
  have go: "decide scenario_env empty_link_record = Proceed"
    by (simp add: decide_def too_old_def props scenario_env_simps)
  have "send_calls (new_effects scenario_world
        (snd (on_notification_added scenario_env ''u1'' ''n1'' empty_link_record scenario_world)))
      = [build_message (JStr ''tok123'') empty_link_record]"
    using sends_on_dispatch [OF go scenario_env_simps(1) scenario_doc_simps(1),
            where u = "''u1''" and i = "''n1''" and w = scenario_world]
    by (simp add: scenario_doc_simps)
  with go props show ?thesis
    by (simp add: build_message_def js_or_def)
qed

text \<open>
  Claim C5, amended. For a record that passes the filter and resolves to a token, with link
  and type each absent or a string, the one message sent to the gateway is addressed by the
  token, has no notification field, and carries as data the record's title and body, the
  fixed icon, as url the record's link, or \<open>/\<close> when the link is absent or empty, and as
  type the record's type, or \<open>info\<close> when the type is absent or empty; the webpush link
  equals the url.
\<close>

theorem dispatch_message:
  assumes "decide e n = Proceed" and "firestore_get e u = Resolved d" and "exists d"
    and "truthy (property (userData d) ''fcmToken'')"
    and "property n ''link'' = JUndefined \<or> (\<exists>s. property n ''link'' = JStr s)"
    and "property n ''type'' = JUndefined \<or> (\<exists>s. property n ''type'' = JStr s)"
  shows "send_calls (new_effects w (snd (on_notification_added e u i n w))) =
           [\<lparr>token = property (userData d) ''fcmToken'',
             notification = None,
             data = \<lparr>title = property n ''title'',
                     body = property n ''body'',
                     url = (if property n ''link'' \<in> {JUndefined, JStr []} then JStr ''/''
                            else property n ''link''),
                     type = (if property n ''type'' \<in> {JUndefined, JStr []} then JStr ''info''
                             else property n ''type''),
                     icon = JStr ''https://educationfyp.vercel.app/report.png''\<rparr>,
             webpush_fcm_options_link =
               (if property n ''link'' \<in> {JUndefined, JStr []} then JStr ''/''
                else property n ''link'')\<rparr>]"
proof -
  have "js_or (property n ''link'') (JStr ''/'') =
          (if property n ''link'' \<in> {JUndefined, JStr []} then JStr ''/'' else property n ''link'')"
    using assms(5) by (auto simp: js_or_def)
  moreover have "js_or (property n ''type'') (JStr ''info'') =
          (if property n ''type'' \<in> {JUndefined, JStr []} then JStr ''info'' else property n ''type'')"
    using assms(6) by (auto simp: js_or_def)
  ultimately show ?thesis
    using sends_on_dispatch [OF assms(1-4), where w = w and i = i]
    by (simp add: build_message_def)
qed

theorem dispatch_message_witness:
  "send_calls (new_effects scenario_world
        (snd (on_notification_added scenario_env ''u1'' ''n1'' linked_record scenario_world)))
      = [\<lparr>token = JStr ''tok123'', notification = None,
           data = \<lparr>title = JStr ''Hi'', body = JStr ''New grade posted'', url = JStr ''/grades'',
                    type = JStr ''grade'',
                    icon = JStr ''https://educationfyp.vercel.app/report.png''\<rparr>,
           webpush_fcm_options_link = JStr ''/grades''\<rparr>]
   \<and> send_calls (new_effects scenario_world
        (snd (on_notification_added scenario_env ''u1'' ''n1'' scenario_a_record scenario_world)))
      = [\<lparr>token = JStr ''tok123'', notification = None,
           data = \<lparr>title = JStr ''Hi'', body = JStr ''New grade posted'', url = JStr ''/'',
                    type = JStr ''info'',
                    icon = JStr ''https://educationfyp.vercel.app/report.png''\<rparr>,
           webpush_fcm_options_link = JStr ''/''\<rparr>]"
proof -
  have props: "property linked_record ''link'' = JStr ''/grades''"
      "property linked_record ''type'' = JStr ''grade''"
      "property linked_record ''title'' = JStr ''Hi''"
      "property linked_record ''body'' = JStr ''New grade posted''"
      "property linked_record ''processed'' = JBool False"
      "property linked_record ''timestamp'' = JNum 1700000000000"
    by (simp_all add: linked_record_def scenario_a_record_def property_def)
  have props_a: "property scenario_a_record ''link'' = JUndefined"
      "property scenario_a_record ''type'' = JUndefined"
      "property scenario_a_record ''title'' = JStr ''Hi''"
      "property scenario_a_record ''body'' = JStr ''New grade posted''"
    by (simp_all add: scenario_a_record_def property_def)
  have go: "decide scenario_env linked_record = Proceed"
    by (simp add: decide_def too_old_def props scenario_env_simps)
  have tok: "truthy (property (userData scenario_doc) ''fcmToken'')"
    by (simp add: scenario_doc_simps)
  have l: "property linked_record ''link'' = JUndefined \<or> (\<exists>s. property linked_record ''link'' = JStr s)"
    and t: "property linked_record ''type'' = JUndefined \<or> (\<exists>s. property linked_record ''type'' = JStr s)"
    by (simp_all add: props)
  have la: "property scenario_a_record ''link'' = JUndefined \<or> (\<exists>s. property scenario_a_record ''link'' = JStr s)"
    and ta: "property scenario_a_record ''type'' = JUndefined \<or> (\<exists>s. property scenario_a_record ''type'' = JStr s)"
    by (simp_all add: props_a)
  show ?thesis
    using dispatch_message [OF go scenario_env_simps(1) scenario_doc_simps(1) tok l t,
            where u = "''u1''" and i = "''n1''" and w = scenario_world]
      dispatch_message [OF scenario_a_decide scenario_env_simps(1) scenario_doc_simps(1) tok la ta,
            where u = "''u1''" and i = "''n1''" and w = scenario_world]
    by (simp add: props props_a scenario_doc_simps)
qed

section \<open>The completion marker\<close>

text \<open>
  Claim C6. After a successful dispatch the handler issues exactly one write, the partial
  update of \<open>processed = true\<close> at the record's key. Every other record is unchanged, every
  other field of the record is unchanged, and once the write is acknowledged the record's
  processed flag is true.
\<close>

theorem marker_frame:
  assumes "decide e n = Proceed" and "firestore_get e u = Resolved d" and "exists d"
    and "truthy (property (userData d) ''fcmToken'')"
    and "messaging_send e (build_message (property (userData d) ''fcmToken'') n) = Resolved r"
    and "rtdb w (u, i) = Some s"
  shows "filter is_write (new_effects w (snd (on_notification_added e u i n w)))
           = [RtdbUpdate u i [(''processed'', JBool True)]]
       \<and> (\<forall>k. k \<noteq> (u, i) \<longrightarrow> rtdb (snd (on_notification_added e u i n w)) k = rtdb w k)
       \<and> (\<exists>s'. rtdb (snd (on_notification_added e u i n w)) (u, i) = Some s'
              \<and> (\<forall>f. f \<noteq> ''processed'' \<longrightarrow> s' f = s f)
              \<and> ((\<exists>x. child_update e u i = Resolved x) \<longrightarrow> s' ''processed'' = Some (JBool True)))"
proof (cases "child_update e u i")
  case (Rejected err)
  with assms(6) show ?thesis
    by (simp add: run_update_rejected [OF assms(1-5) Rejected] new_effects_def)
next
  case (Resolved x)
  with assms(6) show ?thesis
    by (simp add: run_delivered [OF assms(1-5) Resolved] new_effects_def)
qed

theorem marker_frame_witness:
  "filter is_write (new_effects two_record_world
      (snd (on_notification_added scenario_env ''u1'' ''n1'' scenario_a_record two_record_world)))
     = [RtdbUpdate ''u1'' ''n1'' [(''processed'', JBool True)]]
   \<and> rtdb (snd (on_notification_added scenario_env ''u1'' ''n1'' scenario_a_record two_record_world))
        (''u1'', ''n2'') = Some stale_record
   \<and> (\<exists>s'. rtdb (snd (on_notification_added scenario_env ''u1'' ''n1'' scenario_a_record two_record_world))
           (''u1'', ''n1'') = Some s'
        \<and> s' ''processed'' = Some (JBool True)
        \<and> s' ''title'' = Some (JStr ''Hi'')
        \<and> s' ''body'' = Some (JStr ''New grade posted'')
        \<and> s' ''timestamp'' = Some (JNum 1700000000000)
        \<and> s' ''link'' = None
        \<and> s' ''type'' = None)"
proof -
  have tok: "truthy (property (userData scenario_doc) ''fcmToken'')"
    by (simp add: scenario_doc_simps)
  have stored: "rtdb two_record_world (''u1'', ''n1'') = Some scenario_a_record"
    and sibling: "rtdb two_record_world (''u1'', ''n2'') = Some stale_record"
    by (simp_all add: two_record_world_def startup_def)
  note frame = marker_frame [OF scenario_a_decide scenario_env_simps(1) scenario_doc_simps(1) tok
        scenario_env_simps(2) stored]
  have ack: "\<exists>x. child_update scenario_env ''u1'' ''n1'' = Resolved x"
    by (simp add: scenario_env_simps)
  have other: "(''u1'', ''n2'') \<noteq> (''u1'', ''n1'')"
    by simp
  from frame other sibling
  have kept: "rtdb (snd (on_notification_added scenario_env ''u1'' ''n1'' scenario_a_record two_record_world))
        (''u1'', ''n2'') = Some stale_record"
    by metis
  from frame ack obtain s' where s':
       "rtdb (snd (on_notification_added scenario_env ''u1'' ''n1'' scenario_a_record two_record_world))
           (''u1'', ''n1'') = Some s'"
       "s' ''processed'' = Some (JBool True)"
       "\<forall>f. f \<noteq> ''processed'' \<longrightarrow> s' f = scenario_a_record f"
    by blast
  have "s' ''title'' = scenario_a_record ''title''" "s' ''body'' = scenario_a_record ''body''"
    "s' ''timestamp'' = scenario_a_record ''timestamp''" "s' ''link'' = scenario_a_record ''link''"
    "s' ''type'' = scenario_a_record ''type''"
    using s'(3) by simp_all
  then have "s' ''title'' = Some (JStr ''Hi'')" "s' ''body'' = Some (JStr ''New grade posted'')"
    "s' ''timestamp'' = Some (JNum 1700000000000)" "s' ''link'' = None" "s' ''type'' = None"
    by (simp_all add: scenario_a_record_def)
  with s'(1,2) frame kept show ?thesis by blast
qed

section \<open>The resolver's stop conditions\<close>

text \<open>
  Claim C7. For a record that passes the filter: if the profile document does not exist, or
  exists without a push token, the handler completes without throwing, makes no gateway
  call and no write, and leaves the stored records unchanged; it only fetches and logs.
\<close>

theorem resolver_stops:
  assumes "decide e n = Proceed" and "firestore_get e u = Resolved d"
    and "\<not> exists d \<or> \<not> truthy (property (userData d) ''fcmToken'')"
  shows "fst (on_notification_added e u i n w) = None
       \<and> rtdb (snd (on_notification_added e u i n w)) = rtdb w
       \<and> send_calls (new_effects w (snd (on_notification_added e u i n w))) = []
       \<and> filter is_write (new_effects w (snd (on_notification_added e u i n w))) = []
       \<and> new_effects w (snd (on_notification_added e u i n w)) =
           [ConsoleLog (Processing u n), ConsoleLog (Fetching u), FirestoreGet u] @
           (if exists d then [ConsoleLog (UserFound u False), ConsoleLog (NoToken u)]
            else [ConsoleLog (NoDoc u)])"
proof (cases "exists d")
  case True
  with assms show ?thesis by (simp add: run_no_token new_effects_def)
next
  case False
  with assms show ?thesis by (simp add: run_no_doc new_effects_def)
qed

theorem resolver_stops_witness:
  "new_effects scenario_world
     (snd (on_notification_added no_token_env ''u1'' ''n1'' scenario_a_record scenario_world)) =
     [ConsoleLog (Processing ''u1'' scenario_a_record), ConsoleLog (Fetching ''u1''),
      FirestoreGet ''u1'', ConsoleLog (UserFound ''u1'' False), ConsoleLog (NoToken ''u1'')]
   \<and> rtdb (snd (on_notification_added no_token_env ''u1'' ''n1'' scenario_a_record scenario_world))
       = rtdb scenario_world
   \<and> new_effects scenario_world
     (snd (on_notification_added no_doc_env ''u1'' ''n1'' scenario_a_record scenario_world)) =
     [ConsoleLog (Processing ''u1'' scenario_a_record), ConsoleLog (Fetching ''u1''),
      FirestoreGet ''u1'', ConsoleLog (NoDoc ''u1'')]
   \<and> rtdb (snd (on_notification_added no_doc_env ''u1'' ''n1'' scenario_a_record scenario_world))
       = rtdb scenario_world"
proof -
  have go: "decide no_token_env scenario_a_record = Proceed" "decide no_doc_env scenario_a_record = Proceed"
    by (simp_all add: decide_def too_old_def no_token_env_def no_doc_env_def scenario_env_def
        scenario_a_record_def property_def)
  have f1: "firestore_get no_token_env ''u1'' = Resolved \<lparr>exists = True, userData = Map.empty\<rparr>"
    by (simp add: no_token_env_def)
  have f2: "firestore_get no_doc_env ''u1'' = Resolved \<lparr>exists = False, userData = Map.empty\<rparr>"
    by (simp add: no_doc_env_def)
  have h1: "\<not> exists \<lparr>exists = True, userData = Map.empty\<rparr>
          \<or> \<not> truthy (property (userData \<lparr>exists = True, userData = Map.empty\<rparr>) ''fcmToken'')"
    by (simp add: property_def)
  have h2: "\<not> exists \<lparr>exists = False, userData = Map.empty\<rparr>
          \<or> \<not> truthy (property (userData \<lparr>exists = False, userData = Map.empty\<rparr>) ''fcmToken'')"
    by simp
  show ?thesis
    using resolver_stops [OF go(1) f1 h1, where i = "''n1''" and w = scenario_world]
      resolver_stops [OF go(2) f2 h2, where i = "''n1''" and w = scenario_world]
    by simp
qed

section \<open>Registration uniqueness\<close>

lemma handler_keeps_listeners:
  "activeListeners (snd (on_notification_added e u i n w)) = activeListeners w
   \<and> subscriptions (effects (snd (on_notification_added e u i n w))) = subscriptions (effects w)"
  by (cases rule: run_cases [where e = e and n = n and u = u and i = i])
     (simp_all add: run_skip run_fetch_rejected run_no_doc run_no_token run_send_rejected
        run_update_rejected run_delivered)

lemma pipeline_keeps_listeners:
  "activeListeners (pipeline e u i w) = activeListeners w
   \<and> subscriptions (effects (pipeline e u i w)) = subscriptions (effects w)"
  by (simp add: pipeline_def handler_keeps_listeners split: option.splits)

lemma on_user_added_subscriptions:
  "subscriptions (effects (on_user_added u w)) =
     (if u \<in> activeListeners w then subscriptions (effects w) else subscriptions (effects w) @ [u])"
  by (simp add: on_user_added_def emit_def)

lemma on_user_added_listeners:
  "activeListeners (on_user_added u w) = insert u (activeListeners w)"
  by (auto simp: on_user_added_def emit_def)

lemma registered_step: "registered w \<Longrightarrow> registered (step w ev)"
proof (cases ev)
  case (UserAdded u)
  assume "registered w"
  then show ?thesis
    unfolding UserAdded registered_def
    by (auto simp: on_user_added_subscriptions on_user_added_listeners)
next
  case (NotificationAdded e u i)
  assume "registered w"
  then show ?thesis
    unfolding NotificationAdded registered_def
    by (simp add: pipeline_keeps_listeners)
next
  case (RecordWritten u i n)
  assume "registered w"
  then show ?thesis
    unfolding RecordWritten registered_def by simp
qed

lemma registered_run: "registered w \<Longrightarrow> registered (run w evs)"
  unfolding run_def
  by (induction evs arbitrary: w) (simp_all add: registered_step)

lemma registered_startup: "registered (startup db)"
  by (simp add: registered_def startup_def)

lemma step_listeners_mono: "activeListeners w \<subseteq> activeListeners (step w ev)"
  by (cases ev) (auto simp: on_user_added_listeners pipeline_keeps_listeners)

lemma run_listeners_mono: "activeListeners w \<subseteq> activeListeners (run w evs)"
  unfolding run_def
proof (induction evs arbitrary: w)
  case Nil
  show ?case by simp
next
  case (Cons ev evs)
  have "activeListeners w \<subseteq> activeListeners (step w ev)"
    by (rule step_listeners_mono)
  also have "\<dots> \<subseteq> activeListeners (foldl step (step w ev) evs)"
    by (rule Cons.IH)
  finally show ?case by simp
qed

lemma run_append: "run w (xs @ ys) = run (run w xs) ys"
  by (simp add: run_def)

lemma user_added_listens:
  assumes "UserAdded u \<in> set evs"
  shows "u \<in> activeListeners (run w evs)"
proof -
  from assms obtain xs ys where evs: "evs = xs @ UserAdded u # ys"
    by (meson split_list)
  have "run w evs = run (step (run w xs) (UserAdded u)) ys"
    by (simp add: evs run_def)
  moreover have "u \<in> activeListeners (step (run w xs) (UserAdded u))"
    by (simp add: on_user_added_listeners)
  ultimately show ?thesis
    using run_listeners_mono by fastforce
qed

lemma count_list_distinct:
  "distinct xs \<Longrightarrow> count_list xs x = (if x \<in> set xs then 1 else 0)"
  by (induction xs) auto

text \<open>
  Claim C4. From startup, after any sequence of events, no user has more than one
  sub-tree subscription; a user for whom at least one top-level \<open>child_added\<close> event was
  delivered has exactly one; and N \<open>\<ge>\<close> 1 such events for one user attach exactly one
  subscription.
\<close>

theorem one_subscription_per_user:
  "count_list (subscriptions (effects (run (startup db) evs))) u \<le> 1
   \<and> (UserAdded u \<in> set evs \<longrightarrow> count_list (subscriptions (effects (run (startup db) evs))) u = 1)
   \<and> (0 < N \<longrightarrow> subscriptions (effects (run (startup db) (replicate N (UserAdded u)))) = [u])"
proof -
  have reg: "registered (run (startup db) xs)" for xs
    by (simp add: registered_run registered_startup)
  have c: "count_list (subscriptions (effects (run (startup db) xs))) v =
            (if v \<in> activeListeners (run (startup db) xs) then 1 else 0)" for xs v
    using reg [of xs] by (simp add: registered_def count_list_distinct)
  have one: "count_list (subscriptions (effects (run (startup db) evs))) u \<le> 1"
    by (simp add: c)
  have two: "count_list (subscriptions (effects (run (startup db) evs))) u = 1"
    if "UserAdded u \<in> set evs"
    using that by (simp add: c user_added_listens)
  have three: "subscriptions (effects (run (startup db) (replicate N (UserAdded u)))) = [u]"
    if "0 < N"
  proof -
    have rest: "subscriptions (effects (run w (replicate k (UserAdded u)))) = subscriptions (effects w)"
      if "u \<in> activeListeners w" for w k
      using that unfolding run_def
      by (induction k arbitrary: w) (simp_all add: on_user_added_def)
    from that obtain k where N: "N = Suc k"
      by (cases N) auto
    have "run (startup db) (replicate N (UserAdded u)) =
            run (on_user_added u (startup db)) (replicate k (UserAdded u))"
      by (simp add: N run_def)
    moreover have "u \<in> activeListeners (on_user_added u (startup db))"
      by (simp add: on_user_added_listeners)
    ultimately show ?thesis
      by (simp add: rest on_user_added_subscriptions startup_def)
  qed
  from one two three show ?thesis by blast
qed

theorem one_subscription_per_user_witness:
  "count_list (subscriptions (effects (run scenario_world
      [UserAdded ''u1'', NotificationAdded scenario_env ''u1'' ''n1'', UserAdded ''u1'']))) ''u1'' = 1
   \<and> subscriptions (effects (run scenario_world (replicate 3 (UserAdded ''u1'')))) = [''u1'']"
proof -
  have "UserAdded ''u1'' \<in> set [UserAdded ''u1'', NotificationAdded scenario_env ''u1'' ''n1'', UserAdded ''u1'']"
    by simp
  moreover have "(0::nat) < 3" by simp
  ultimately show ?thesis
    using one_subscription_per_user
      [where db = "[(''u1'', ''n1'') \<mapsto> scenario_a_record]" and u = "''u1''" and N = 3
         and evs = "[UserAdded ''u1'', NotificationAdded scenario_env ''u1'' ''n1'', UserAdded ''u1'']"]
    unfolding scenario_world_def
    by blast
qed

section \<open>The account-deletion endpoint\<close>

lemma delete_user_try_Inr:
  "delete_user_try a b = Inr res \<longleftrightarrow>
     (\<exists>p ur x. json_parse a b = Inr p \<and> truthy (property p ''email'') \<and>
        getUserByEmail a (property p ''email'') = Resolved ur \<and>
        deleteUser a (uid ur) = Resolved x) \<and>
     res = \<lparr>statusCode = 200,
            headers = cors_headers @ [(''Content-Type'', ''application/json'')],
            payload = Json [(''success'', JBool True), (''message'', JStr ''User deleted from Auth'')]\<rparr>"
  by (auto simp: delete_user_try_def Let_def split: sum.splits outcome.splits)

lemma delete_user_try_directory_error:
  assumes "json_parse a b = Inr p" and "truthy (property p ''email'')"
    and "getUserByEmail a (property p ''email'') = Rejected err
       \<or> (\<exists>ur. getUserByEmail a (property p ''email'') = Resolved ur \<and> deleteUser a (uid ur) = Rejected err)"
  shows "delete_user_try a b = Inl err"
  using assms by (auto simp: delete_user_try_def Let_def)

lemma delete_user_try_no_email:
  assumes "json_parse a b = Inr p" and "\<not> truthy (property p ''email'')"
  shows "delete_user_try a b = Inl \<lparr>code = JUndefined, message = ''Email is required''\<rparr>"
  using assms by (simp add: delete_user_try_def)

lemma parsed_email: "property [''email'' \<mapsto> JStr ''a@b.c''] ''email'' = JStr ''a@b.c''"
  by (simp add: property_def)

lemma directory_ok_simps:
  "json_parse directory_ok b = Inr [''email'' \<mapsto> JStr ''a@b.c'']"
  "getUserByEmail directory_ok m = Resolved \<lparr>uid = ''uid1''\<rparr>"
  "deleteUser directory_ok k = Resolved ()"
  by (simp_all add: directory_ok_def)

lemma directory_absent_try:
  "delete_user_try directory_absent b = Inl not_found_error"
  by (simp add: delete_user_try_def directory_absent_def directory_ok_def parsed_email)

lemma directory_failing_try:
  "delete_user_try directory_failing b = Inl internal_error"
  by (simp add: delete_user_try_def directory_failing_def directory_ok_def parsed_email)

text \<open>
  Claim C9. For a POST to \<open>/delete-user\<close>: when the body parses to an object with an email,
  the directory finds the account and deletes it, the response is 200 with
  \<open>{success: true, message}\<close>; when an error is thrown whose code is
  \<open>auth/user-not-found\<close>, the response is 200 with \<open>{success: true, message}\<close>; when any
  other error is thrown, the response is 500 with \<open>{success: false, error}\<close> carrying the
  error's message. The errors thrown are those of the directory's lookup and delete, of
  the parsing of the body, and the one raised for a missing email.
\<close>

theorem delete_user_contract:
  assumes "req_method req = ''POST''" and "req_url req = ''/delete-user''"
  shows "(json_parse a (req_body req) = Inr p \<and> truthy (property p ''email'') \<and>
          getUserByEmail a (property p ''email'') = Resolved ur \<and> deleteUser a (uid ur) = Resolved x
          \<longrightarrow> statusCode (handle_request a req) = 200
            \<and> payload (handle_request a req) =
                Json [(''success'', JBool True), (''message'', JStr ''User deleted from Auth'')])
       \<and> (delete_user_try a (req_body req) = Inl err \<and> code err = JStr ''auth/user-not-found''
          \<longrightarrow> statusCode (handle_request a req) = 200
            \<and> payload (handle_request a req) =
                Json [(''success'', JBool True), (''message'', JStr ''User already deleted'')])
       \<and> (delete_user_try a (req_body req) = Inl err \<and> code err \<noteq> JStr ''auth/user-not-found''
          \<longrightarrow> statusCode (handle_request a req) = 500
            \<and> payload (handle_request a req) =
                Json [(''success'', JBool False), (''error'', JStr (message err))])
       \<and> (json_parse a (req_body req) = Inr p \<and> truthy (property p ''email'') \<and>
          (getUserByEmail a (property p ''email'') = Rejected err
           \<or> getUserByEmail a (property p ''email'') = Resolved ur \<and> deleteUser a (uid ur) = Rejected err)
          \<longrightarrow> delete_user_try a (req_body req) = Inl err)
       \<and> (json_parse a (req_body req) = Inl err \<longrightarrow> delete_user_try a (req_body req) = Inl err)
       \<and> (json_parse a (req_body req) = Inr p \<and> \<not> truthy (property p ''email'')
          \<longrightarrow> delete_user_try a (req_body req) = Inl \<lparr>code = JUndefined, message = ''Email is required''\<rparr>)"
proof -
  have h: "handle_request a req = delete_user a (req_body req)"
    using assms by (simp add: handle_request_def)
  have ok: "statusCode (delete_user a (req_body req)) = 200
            \<and> payload (delete_user a (req_body req)) =
                Json [(''success'', JBool True), (''message'', JStr ''User deleted from Auth'')]"
    if "json_parse a (req_body req) = Inr p \<and> truthy (property p ''email'') \<and>
          getUserByEmail a (property p ''email'') = Resolved ur \<and> deleteUser a (uid ur) = Resolved x"
    using that by (simp add: delete_user_def delete_user_try_def)
  have gone: "statusCode (delete_user a (req_body req)) = 200
            \<and> payload (delete_user a (req_body req)) =
                Json [(''success'', JBool True), (''message'', JStr ''User already deleted'')]"
    if "delete_user_try a (req_body req) = Inl err \<and> code err = JStr ''auth/user-not-found''"
    using that by (simp add: delete_user_def)
  have failed: "statusCode (delete_user a (req_body req)) = 500
            \<and> payload (delete_user a (req_body req)) =
                Json [(''success'', JBool False), (''error'', JStr (message err))]"
    if "delete_user_try a (req_body req) = Inl err \<and> code err \<noteq> JStr ''auth/user-not-found''"
    using that by (simp add: delete_user_def)
  have directory: "delete_user_try a (req_body req) = Inl err"
    if "json_parse a (req_body req) = Inr p \<and> truthy (property p ''email'') \<and>
          (getUserByEmail a (property p ''email'') = Rejected err
           \<or> getUserByEmail a (property p ''email'') = Resolved ur \<and> deleteUser a (uid ur) = Rejected err)"
    using that by (intro delete_user_try_directory_error [where p = p]) auto
  have parse: "delete_user_try a (req_body req) = Inl err" if "json_parse a (req_body req) = Inl err"
    using that by (simp add: delete_user_try_def)
  have no_email: "delete_user_try a (req_body req) = Inl \<lparr>code = JUndefined, message = ''Email is required''\<rparr>"
    if "json_parse a (req_body req) = Inr p \<and> \<not> truthy (property p ''email'')"
    using that by (simp add: delete_user_try_no_email)
  show ?thesis
    unfolding h using ok gone failed directory parse no_email by blast
qed

theorem delete_user_contract_witness:
  "statusCode (handle_request directory_ok delete_request) = 200
   \<and> payload (handle_request directory_ok delete_request) =
       Json [(''success'', JBool True), (''message'', JStr ''User deleted from Auth'')]
   \<and> statusCode (handle_request directory_absent delete_request) = 200
   \<and> payload (handle_request directory_absent delete_request) =
       Json [(''success'', JBool True), (''message'', JStr ''User already deleted'')]
   \<and> statusCode (handle_request directory_failing delete_request) = 500
   \<and> payload (handle_request directory_failing delete_request) =
       Json [(''success'', JBool False), (''error'', JStr (message internal_error))]"
proof -
  have req: "req_method delete_request = ''POST''" "req_url delete_request = ''/delete-user''"
    by (simp_all add: delete_request_def)
  have ok: "json_parse directory_ok (req_body delete_request) = Inr [''email'' \<mapsto> JStr ''a@b.c''] \<and>
      truthy (property [''email'' \<mapsto> JStr ''a@b.c''] ''email'') \<and>
      getUserByEmail directory_ok (property [''email'' \<mapsto> JStr ''a@b.c''] ''email'') = Resolved \<lparr>uid = ''uid1''\<rparr> \<and>
      deleteUser directory_ok (uid \<lparr>uid = ''uid1''\<rparr>) = Resolved ()"
    by (simp add: directory_ok_simps parsed_email)
  have absent: "delete_user_try directory_absent (req_body delete_request) = Inl not_found_error
      \<and> code not_found_error = JStr ''auth/user-not-found''"
    by (simp add: directory_absent_try) (simp add: not_found_error_def)
  have failing: "delete_user_try directory_failing (req_body delete_request) = Inl internal_error
      \<and> code internal_error \<noteq> JStr ''auth/user-not-found''"
    by (simp add: directory_failing_try) (simp add: internal_error_def)
  have one: "statusCode (handle_request directory_ok delete_request) = 200
     \<and> payload (handle_request directory_ok delete_request) =
       Json [(''success'', JBool True), (''message'', JStr ''User deleted from Auth'')]"
    by (rule mp [OF conjunct1 [OF delete_user_contract [OF req]] ok])
  have two: "statusCode (handle_request directory_absent delete_request) = 200
     \<and> payload (handle_request directory_absent delete_request) =
       Json [(''success'', JBool True), (''message'', JStr ''User already deleted'')]"
    by (rule mp [OF conjunct1 [OF conjunct2 [OF delete_user_contract [OF req]]] absent])
  have three: "statusCode (handle_request directory_failing delete_request) = 500
     \<and> payload (handle_request directory_failing delete_request) =
       Json [(''success'', JBool False), (''error'', JStr (message internal_error))]"
    by (rule mp [OF conjunct1 [OF conjunct2 [OF conjunct2 [OF delete_user_contract [OF req]]]] failing])
  from one two three show ?thesis
    by (intro conjI) (erule conjunct1 conjunct2)+
qed

end
